theory Spec2Isabelle
  imports Complex_Main "HOL-Library.Word"
begin

section \<open>Strings, bytes and paths\<close>

text \<open>
  The program is \<^verbatim>\<open>concat_archivos.py\<close>: it walks a folder, filters the files it
  finds and appends the text of each accepted file to one output file.

  A Python \<^verbatim>\<open>str\<close> is a \<^typ>\<open>string\<close>; a \<^typ>\<open>char\<close> stands for a code point below 256.
  A Python \<^verbatim>\<open>bytes\<close> value is a list of 8-bit words. A path is the list of its
  components: \<^verbatim>\<open>/home/u/proj/a.py\<close> is \<open>[''home'', ''u'', ''proj'', ''a.py'']\<close>, so
  that \<^verbatim>\<open>os.path.join(dirpath, fname)\<close> appends one component and
  \<^verbatim>\<open>os.path.basename\<close> is the last one.
\<close>

type_synonym byte = "8 word"

type_synonym path = "string list"

definition newline :: char where
  "newline = CHR 0x0A"

definition startswith :: "string \<Rightarrow> string \<Rightarrow> bool" where
  "startswith s pre = (take (length pre) s = pre)"

definition endswith :: "string \<Rightarrow> string \<Rightarrow> bool" where
  "endswith s suf = (length suf \<le> length s \<and> drop (length s - length suf) s = suf)"

text \<open>\<^verbatim>\<open>str.lower\<close> on code points below 256: A-Z and the Latin-1 capitals move by 32.\<close>

definition lower_char :: "char \<Rightarrow> char" where
  "lower_char c =
     (let n = (of_char c :: nat)
      in if (65 \<le> n \<and> n \<le> 90) \<or> (192 \<le> n \<and> n \<le> 214) \<or> (216 \<le> n \<and> n \<le> 222)
         then char_of (n + 32) else c)"

definition lower :: "string \<Rightarrow> string" where
  "lower s = map lower_char s"

definition join :: "path \<Rightarrow> string \<Rightarrow> path" where
  "join dirpath fname = dirpath @ [fname]"

definition basename :: "path \<Rightarrow> string" where
  "basename p = last p"

text \<open>
  \<^verbatim>\<open>os.path.splitext\<close> on a base name (no separator in it): the extension starts at
  the last dot, unless only dots stand before it.
\<close>

definition splitext :: "string \<Rightarrow> string \<times> string" where
  "splitext p =
     (if CHR ''.'' \<in> set p then
        (let dotIndex = length p - Suc (length (takeWhile (\<lambda>c. c \<noteq> CHR ''.'') (rev p)))
         in if list_ex (\<lambda>c. c \<noteq> CHR ''.'') (take dotIndex p)
            then (take dotIndex p, drop dotIndex p)
            else (p, []))
      else (p, []))"

fun sep_join :: "string \<Rightarrow> string list \<Rightarrow> string" where
  "sep_join sep [] = []"
| "sep_join sep [x] = x"
| "sep_join sep (x # y # ys) = x @ sep @ sep_join sep (y # ys)"

text \<open>
  \<^verbatim>\<open>os.path.relpath(path, root)\<close> for a path that the walk produced below \<open>root\<close>: the
  components after those of the root, joined by the separator.
\<close>

definition relpath :: "path \<Rightarrow> path \<Rightarrow> string" where
  "relpath p start = sep_join ''/'' (drop (length start) p)"

section \<open>The constants of the module\<close>

definition DEFAULT_EXCLUDED_DIRS :: "string set" where
  "DEFAULT_EXCLUDED_DIRS =
     {''.git'', ''node_modules'', ''target'', ''bin'', ''obj'', ''build'', ''dist'',
      ''vendor'', ''__pycache__''}"

definition DEFAULT_EXCLUDED_EXTS :: "string set" where
  "DEFAULT_EXCLUDED_EXTS =
     {''.png'', ''.jpg'', ''.jpeg'', ''.gif'', ''.webp'', ''.bmp'', ''.ico'', ''.psd'',
      ''.pdf'',
      ''.zip'', ''.rar'', ''.7z'', ''.tar'', ''.gz'', ''.bz2'', ''.xz'',
      ''.mp3'', ''.wav'', ''.ogg'', ''.flac'',
      ''.mp4'', ''.mov'', ''.avi'', ''.mkv'', ''.webm'',
      ''.ttf'', ''.otf'', ''.woff'', ''.woff2'',
      ''.exe'', ''.dll'', ''.so'', ''.dylib'', ''.a'', ''.o'',
      ''.class'', ''.jar'',
      ''.blend'', ''.fbx'', ''.obj'', ''.glb'', ''.gltf''}"

section \<open>The file system and the options\<close>

text \<open>
  What \<^verbatim>\<open>os.walk\<close> lists: a file, or a directory with its entries in the order of
  the listing. The flag of a directory says that the entry is a symbolic link.
\<close>

datatype fsnode = File | Dir bool "(string \<times> fsnode) list"

text \<open>
  What the program reads of the file system, one field for each call it makes:
  \<^item> \<open>node_at\<close>: what stands at a path (\<^verbatim>\<open>os.path.isdir\<close>, \<^verbatim>\<open>os.walk\<close>);
  \<^item> \<open>getsize\<close>: \<^verbatim>\<open>os.path.getsize\<close>, \<open>None\<close> when it raises \<^verbatim>\<open>OSError\<close>;
  \<^item> \<open>read_bytes\<close>: the bytes that \<^verbatim>\<open>open(path, "rb")\<close> gives, \<open>None\<close> when opening
    or reading raises;
  \<^item> \<open>read_text\<close>: the result of \<^verbatim>\<open>open(path, "r", encoding=e, errors="replace").read()\<close>
    by encoding and path, \<open>None\<close> when it raises;
  \<^item> \<open>can_write\<close>: whether \<^verbatim>\<open>open(output, "w")\<close> succeeds;
  \<^item> \<open>abspath\<close>: \<^verbatim>\<open>os.path.abspath\<close> under the working directory.
\<close>

record filesystem =
  node_at :: "path \<Rightarrow> fsnode option"
  getsize :: "path \<Rightarrow> nat option"
  read_bytes :: "path \<Rightarrow> byte list option"
  read_text :: "string \<Rightarrow> path \<Rightarrow> string option"
  can_write :: "string \<Rightarrow> bool"
  abspath :: "string \<Rightarrow> path"

text \<open>The namespace that \<^verbatim>\<open>argparse\<close> returns.\<close>

record args =
  folder :: string
  "output" :: string
  "include" :: "string list"
  exclude :: "string list"
  max_bytes :: int
  use_path :: bool
  show_hidden :: bool
  follow_symlinks :: bool
  encoding :: string

section \<open>Filtering\<close>

definition text_chars :: "byte list" where
  "text_chars = map of_nat [32..<127] @ [10, 13, 9, 12, 8]"

text \<open>
  The quotient \<^verbatim>\<open>printable / len(chunk)\<close> is taken in the reals. The chunk has at most
  4096 bytes in the program, so a quotient other than 17/20 is further from 0.85
  than any rounding of the division (lemma \<open>ratio_margin\<close> below).
\<close>

definition is_probably_text :: "filesystem \<Rightarrow> path \<Rightarrow> nat \<Rightarrow> bool" where
  "is_probably_text fs p sample_size =
     (case read_bytes fs p of
        None \<Rightarrow> False
      | Some bs \<Rightarrow>
          (let chunk = take sample_size bs in
           if 0 \<in> set chunk then False
           else if chunk = [] then True
           else (let printable = sum_list (map (\<lambda>c. of_bool (c \<in> set text_chars)) chunk) :: nat
                 in real printable / real (length chunk) > 0.85)))"

text \<open>
  \<^verbatim>\<open>fnmatch.fnmatch\<close> belongs to Python's library; it is a parameter \<open>fnmatch name pat\<close>
  of everything that matches patterns.
\<close>

definition match_any :: "(string \<Rightarrow> string \<Rightarrow> bool) \<Rightarrow> string list \<Rightarrow> string \<Rightarrow> bool" where
  "match_any fnmatch patterns name = list_ex (\<lambda>p. fnmatch name p) patterns"

definition should_skip_file ::
  "(string \<Rightarrow> string \<Rightarrow> bool) \<Rightarrow> filesystem \<Rightarrow> path \<Rightarrow> args \<Rightarrow> bool" where
  "should_skip_file fnmatch fs p a =
     (let base = basename p in
      if \<not> show_hidden a \<and> startswith base ''.'' then True
      else
        (case getsize fs p of
           None \<Rightarrow> True
         | Some sz \<Rightarrow>
             if int sz > max_bytes a then True
             else
               (let ext = lower (snd (splitext base)) in
                if ext \<in> DEFAULT_EXCLUDED_EXTS \<and> include a = [] then True
                else if exclude a \<noteq> [] \<and> match_any fnmatch (exclude a) base then True
                else if include a \<noteq> [] \<and> \<not> match_any fnmatch (include a) base then True
                else if \<not> is_probably_text fs p 4096 then True
                else False)))"

section \<open>Traversal\<close>

text \<open>
  \<^verbatim>\<open>os.walk(top, followlinks=...)\<close>, top down: it lists the directory \<open>topdir\<close>, hands
  the triple of the directory, its sub-directory names and its other names to the body
  of the caller's loop, and then descends into the names that the body left in the list
  (the body may change the list in place: \<open>body\<close> is what it makes of it). A name that
  is no directory (listing it fails), or a link that is not followed, yields nothing.
  A directory that cannot be listed yields no file, as an empty one does.
\<close>

fun is_dir :: "fsnode \<Rightarrow> bool" where
  "is_dir File = False"
| "is_dir (Dir l entries) = True"

fun is_link :: "fsnode \<Rightarrow> bool" where
  "is_link File = False"
| "is_link (Dir l entries) = l"

function os_walk ::
  "(string list \<Rightarrow> string list) \<Rightarrow> bool \<Rightarrow> path \<Rightarrow> fsnode
     \<Rightarrow> (path \<times> string list \<times> string list) list" where
  "os_walk body followlinks topdir File = []"
| "os_walk body followlinks topdir (Dir l entries) =
     (let dirs = map fst (filter (\<lambda>e. is_dir (snd e)) entries);
          nondirs = map fst (filter (\<lambda>e. \<not> is_dir (snd e)) entries)
      in (topdir, dirs, nondirs) #
         concat (map (\<lambda>d. case map_of entries d of
                             None \<Rightarrow> []
                           | Some node \<Rightarrow>
                               if followlinks \<or> \<not> is_link node
                               then os_walk body followlinks (join topdir d) node
                               else [])
                     (body dirs)))"
  by pat_completeness auto

lemma size_entry_less:
  "(n, x) \<in> set entries \<Longrightarrow> size x < Suc (size_list (size_prod (\<lambda>_. 0) size) entries)"
  by (induction entries) auto

termination os_walk
  by (relation "measure (\<lambda>(body, followlinks, topdir, node). size node)")
     (auto dest!: map_of_SomeD size_entry_less)

text \<open>Lines 87 to 92 of \<^verbatim>\<open>walk_files\<close>: what the loop body makes of \<open>dirnames\<close>.\<close>

definition prune_dirnames :: "string list \<Rightarrow> string list" where
  "prune_dirnames dirnames =
     (let pruned = filter (\<lambda>d. d \<in> DEFAULT_EXCLUDED_DIRS \<or> startswith d ''.'') dirnames
      in foldl (\<lambda>ds d. remove1 d ds) dirnames pruned)"

definition walk_files :: "filesystem \<Rightarrow> path \<Rightarrow> bool \<Rightarrow> path list" where
  "walk_files fs rootdir follow =
     (case node_at fs rootdir of
        None \<Rightarrow> []
      | Some node \<Rightarrow>
          concat (map (\<lambda>(dirpath, dirnames, filenames). map (join dirpath) filenames)
                      (os_walk prune_dirnames follow rootdir node)))"

section \<open>Emission\<close>

text \<open>
  The text written to the output file so far and the running count are the state of
  the loop of \<^verbatim>\<open>main\<close>. The output file is opened with \<^verbatim>\<open>newline="\n"\<close>, so what is
  written is what the file holds.
\<close>

fun emit_loop ::
  "(string \<Rightarrow> string \<Rightarrow> bool) \<Rightarrow> filesystem \<Rightarrow> args \<Rightarrow> path \<Rightarrow> path list
     \<Rightarrow> string \<times> nat \<Rightarrow> string \<times> nat" where
  "emit_loop fnmatch fs a rootdir [] (out, count) = (out, count)"
| "emit_loop fnmatch fs a rootdir (p # ps) (out, count) =
     (if should_skip_file fnmatch fs p a then emit_loop fnmatch fs a rootdir ps (out, count)
      else
        (let rel = relpath p rootdir;
             header = (if use_path a then rel else basename p)
         in case read_text fs (encoding a) p of
              None \<Rightarrow> emit_loop fnmatch fs a rootdir ps (out, count)
            | Some content \<Rightarrow>
                (let out1 = out @ header @ '':'' @ [newline];
                     out2 = out1 @ content;
                     out3 = (if \<not> endswith content [newline] then out2 @ [newline] else out2);
                     out4 = out3 @ [newline]
                 in emit_loop fnmatch fs a rootdir ps (out4, count + 1))))"

section \<open>The program\<close>

text \<open>
  A run ends by \<^verbatim>\<open>sys.exit\<close>, by reaching the end of \<^verbatim>\<open>main\<close> (status 0), or by an
  exception that nothing catches: the interpreter then prints a traceback and the
  status of the process is 1.
\<close>

datatype outcome = Exited nat | Raised


text \<open>
  What a run leaves: how it ended, what the program printed on the two streams (the
  interpreter's traceback is not part of it), and the files it wrote, by the name they
  were opened under. Writing to the open output file and printing succeed.
\<close>

record run_result =
  ending :: outcome
  stdout :: string
  stderr :: string
  files :: "string \<rightharpoonup> string"

function str_nat :: "nat \<Rightarrow> string" where
  "str_nat n =
     (if n < 10 then [char_of (48 + n)]
      else str_nat (n div 10) @ [char_of (48 + n mod 10)])"
  by pat_completeness auto

termination str_nat
  by (relation "measure (\<lambda>n. n)") auto

text \<open>The three symbols of the messages beyond Latin-1, as their UTF-8 bytes.\<close>

definition cross_mark :: string where
  "cross_mark = [CHR 0xE2, CHR 0x9C, CHR 0x96]"

definition check_mark :: string where
  "check_mark = [CHR 0xE2, CHR 0x9C, CHR 0x94]"

definition arrow :: string where
  "arrow = [CHR 0xE2, CHR 0x86, CHR 0x92]"

definition path_str :: "path \<Rightarrow> string" where
  "path_str p = ''/'' @ sep_join ''/'' p"

definition isdir :: "filesystem \<Rightarrow> path \<Rightarrow> bool" where
  "isdir fs p = (case node_at fs p of None \<Rightarrow> False | Some node \<Rightarrow> is_dir node)"

text \<open>
  \<open>store\<close> is what the files that runs write held before this run. Opening the output
  with mode \<^verbatim>\<open>"w"\<close> empties it, and the \<^verbatim>\<open>with\<close> block closes it after the loop.
\<close>

definition main ::
  "(string \<Rightarrow> string \<Rightarrow> bool) \<Rightarrow> filesystem \<Rightarrow> (string \<rightharpoonup> string) \<Rightarrow> args \<Rightarrow> run_result" where
  "main fnmatch fs store a =
     (let rootdir = abspath fs (folder a) in
      if \<not> isdir fs rootdir then
        \<lparr>ending = Exited 1, stdout = [],
         stderr = cross_mark @ '' La ruta no es una carpeta: '' @ path_str rootdir @ [newline],
         files = store\<rparr>
      else if \<not> can_write fs (output a) then
        \<lparr>ending = Raised, stdout = [], stderr = [], files = store\<rparr>
      else
        (let (out, count) =
               emit_loop fnmatch fs a rootdir (walk_files fs rootdir (follow_symlinks a)) ([], 0)
         in \<lparr>ending = Exited 0,
             stdout = check_mark @ '' Listo. Archivos incluidos: '' @ str_nat count @ [newline]
                        @ arrow @ '' '' @ output a @ [newline],
             stderr = [],
             files = store(output a \<mapsto> out)\<rparr>))"

section \<open>Notions for the properties\<close>

text \<open>The conditions of the six \<^verbatim>\<open>if\<close> statements of \<^verbatim>\<open>should_skip_file\<close>, by line.\<close>

definition hidden_check :: "args \<Rightarrow> path \<Rightarrow> bool" where
  "hidden_check a p = (\<not> show_hidden a \<and> startswith (basename p) ''.'')"

definition size_check :: "filesystem \<Rightarrow> args \<Rightarrow> path \<Rightarrow> bool" where
  "size_check fs a p = (case getsize fs p of None \<Rightarrow> True | Some sz \<Rightarrow> int sz > max_bytes a)"

definition ext_check :: "args \<Rightarrow> path \<Rightarrow> bool" where
  "ext_check a p = (lower (snd (splitext (basename p))) \<in> DEFAULT_EXCLUDED_EXTS \<and> include a = [])"

definition exclude_check :: "(string \<Rightarrow> string \<Rightarrow> bool) \<Rightarrow> args \<Rightarrow> path \<Rightarrow> bool" where
  "exclude_check fnmatch a p = (exclude a \<noteq> [] \<and> match_any fnmatch (exclude a) (basename p))"

definition include_check :: "(string \<Rightarrow> string \<Rightarrow> bool) \<Rightarrow> args \<Rightarrow> path \<Rightarrow> bool" where
  "include_check fnmatch a p = (include a \<noteq> [] \<and> \<not> match_any fnmatch (include a) (basename p))"

definition text_check :: "filesystem \<Rightarrow> path \<Rightarrow> bool" where
  "text_check fs p = (\<not> is_probably_text fs p 4096)"

text \<open>Lines 132 and 133 of \<^verbatim>\<open>main\<close>: the header of a block.\<close>

definition header_of :: "args \<Rightarrow> path \<Rightarrow> path \<Rightarrow> string" where
  "header_of a rootdir p = (if use_path a then relpath p rootdir else basename p)"

text \<open>
  The candidates that get a block: those that the filter accepts and whose text can
  be read.
\<close>

definition emitted ::
  "(string \<Rightarrow> string \<Rightarrow> bool) \<Rightarrow> filesystem \<Rightarrow> args \<Rightarrow> path list \<Rightarrow> path list" where
  "emitted fnmatch fs a ps =
     filter (\<lambda>p. \<not> should_skip_file fnmatch fs p a \<and> read_text fs (encoding a) p \<noteq> None) ps"

subsection \<open>The specification's wording\<close>

text \<open>
  The probably-text heuristic as the specification words it, on the sample (\<open>None\<close>
  when the sample cannot be read): a byte counts when it is printable ASCII (codes 32
  to 126) or newline, carriage return, tab, form feed or backspace.
\<close>

definition spec_text_byte :: "byte \<Rightarrow> bool" where
  "spec_text_byte c = ((32 \<le> c \<and> c \<le> 126) \<or> c = 10 \<or> c = 13 \<or> c = 9 \<or> c = 12 \<or> c = 8)"

definition spec_probably_text :: "byte list option \<Rightarrow> bool" where
  "spec_probably_text sample =
     (case sample of
        None \<Rightarrow> False
      | Some s \<Rightarrow>
          if 0 \<in> set s then False
          else if s = [] then True
          else real (length (filter spec_text_byte s)) / real (length s) > 0.85)"

text \<open>The six rules of the specification's filtering chain, in its order.\<close>

datatype rule = Hidden | Size | Extension | ExcludePattern | IncludePattern | BinarySniff

definition spec_rule_order :: "rule list" where
  "spec_rule_order = [Hidden, Size, Extension, ExcludePattern, IncludePattern, BinarySniff]"

fun spec_triggers ::
  "(string \<Rightarrow> string \<Rightarrow> bool) \<Rightarrow> filesystem \<Rightarrow> path \<Rightarrow> args \<Rightarrow> rule \<Rightarrow> bool" where
  "spec_triggers fnmatch fs p a Hidden = (startswith (basename p) ''.'' \<and> \<not> show_hidden a)"
| "spec_triggers fnmatch fs p a Size =
     (case getsize fs p of None \<Rightarrow> True | Some sz \<Rightarrow> max_bytes a < int sz)"
| "spec_triggers fnmatch fs p a Extension =
     (include a = [] \<and> lower (snd (splitext (basename p))) \<in> DEFAULT_EXCLUDED_EXTS)"
| "spec_triggers fnmatch fs p a ExcludePattern = list_ex (fnmatch (basename p)) (exclude a)"
| "spec_triggers fnmatch fs p a IncludePattern =
     (include a \<noteq> [] \<and> \<not> list_ex (fnmatch (basename p)) (include a))"
| "spec_triggers fnmatch fs p a BinarySniff =
     (\<not> spec_probably_text (map_option (take 4096) (read_bytes fs p)))"

text \<open>First match wins: the first rule of the order that triggers, if any.\<close>

definition spec_first_match ::
  "(string \<Rightarrow> string \<Rightarrow> bool) \<Rightarrow> filesystem \<Rightarrow> path \<Rightarrow> args \<Rightarrow> rule option" where
  "spec_first_match fnmatch fs p a = find (spec_triggers fnmatch fs p a) spec_rule_order"

text \<open>The block of one file as the specification lists its parts.\<close>

definition spec_block :: "string \<Rightarrow> string \<Rightarrow> string" where
  "spec_block header content =
     header @ '':'' @ [newline] @ content
       @ (if endswith content [newline] then [] else [newline]) @ [newline]"

section \<open>A directory to evaluate on\<close>

text \<open>
  A matcher for patterns of plain characters, \<open>*\<close> and \<open>?\<close>, on which
  \<^verbatim>\<open>fnmatch.fnmatch\<close> agrees with it; it stands for the parameter where a property is
  evaluated.
\<close>

fun glob :: "string \<Rightarrow> string \<Rightarrow> bool" where
  "glob [] [] = True"
| "glob [] (c # name) = False"
| "glob (q # pat) [] = (q = CHR ''*'' \<and> glob pat [])"
| "glob (q # pat) (c # name) =
     (if q = CHR ''*'' then glob pat (c # name) \<or> glob (q # pat) name
      else (q = CHR ''?'' \<or> q = c) \<and> glob pat name)"

definition simple_fnmatch :: "string \<Rightarrow> string \<Rightarrow> bool" where
  "simple_fnmatch name pat = glob pat name"

text \<open>
  The folder \<^verbatim>\<open>/w/proj\<close>: a text file, a PNG image, a file that cannot be read as
  text, a dependency directory, and a sub-directory with a text file, a mesh in a text
  format and a hidden directory.
\<close>

definition demo_tree :: fsnode where
  "demo_tree =
     Dir False
       [(''a.py'', File), (''b.png'', File), (''gone.txt'', File),
        (''node_modules'', Dir False [(''lib.js'', File)]),
        (''sub'',
         Dir False [(''m.txt'', File), (''mesh.obj'', File), (''.hid'', Dir False [(''t.txt'', File)])])]"

definition demo_fs :: filesystem where
  "demo_fs =
     \<lparr>node_at = (\<lambda>p. if p = [''w'', ''proj''] then Some demo_tree else None),
      getsize = map_of
        [([''w'', ''proj'', ''a.py''], 6), ([''w'', ''proj'', ''b.png''], 12),
         ([''w'', ''proj'', ''gone.txt''], 3), ([''w'', ''proj'', ''node_modules'', ''lib.js''], 2),
         ([''w'', ''proj'', ''sub'', ''m.txt''], 2), ([''w'', ''proj'', ''sub'', ''mesh.obj''], 4),
         ([''w'', ''proj'', ''sub'', ''.hid'', ''t.txt''], 2)],
      read_bytes = map_of
        [([''w'', ''proj'', ''a.py''], [120, 32, 61, 32, 49, 10]),
         ([''w'', ''proj'', ''b.png''], [137, 80, 78, 71, 13, 10, 26, 10, 0, 0, 0, 13]),
         ([''w'', ''proj'', ''gone.txt''], [104, 105, 10]),
         ([''w'', ''proj'', ''node_modules'', ''lib.js''], [49, 10]),
         ([''w'', ''proj'', ''sub'', ''m.txt''], [111, 107]),
         ([''w'', ''proj'', ''sub'', ''mesh.obj''], [118, 32, 48, 10]),
         ([''w'', ''proj'', ''sub'', ''.hid'', ''t.txt''], [111, 107])],
      read_text = (\<lambda>e. map_of
        [([''w'', ''proj'', ''a.py''], ''x = 1'' @ [newline]),
         ([''w'', ''proj'', ''b.png''], ''?PNG''),
         ([''w'', ''proj'', ''node_modules'', ''lib.js''], ''1'' @ [newline]),
         ([''w'', ''proj'', ''sub'', ''m.txt''], ''ok''),
         ([''w'', ''proj'', ''sub'', ''mesh.obj''], ''v 0'' @ [newline]),
         ([''w'', ''proj'', ''sub'', ''.hid'', ''t.txt''], ''ok'')]),
      can_write = (\<lambda>f. True),
      abspath = (\<lambda>f. [''w'', f])\<rparr>"


text \<open>A disk on which the folder given to the program is \<^verbatim>\<open>/w/build\<close>, with one file.\<close>

definition build_fs :: filesystem where
  "build_fs =
     \<lparr>node_at = (\<lambda>p. if p = [''w'', ''build''] then Some (Dir False [(''a.py'', File)]) else None),
      getsize = map_of [([''w'', ''build'', ''a.py''], 6)],
      read_bytes = map_of [([''w'', ''build'', ''a.py''], [120, 32, 61, 32, 49, 10])],
      read_text = (\<lambda>e. map_of [([''w'', ''build'', ''a.py''], ''x = 1'' @ [newline])]),
      can_write = (\<lambda>f. True),
      abspath = (\<lambda>f. [''w'', f])\<rparr>"

definition demo_args :: args where
  "demo_args =
     \<lparr>folder = ''proj'', output = ''contenido_carpeta.txt'', include = [], exclude = [],
      max_bytes = 1000000, use_path = False, show_hidden = False, follow_symlinks = False,
      encoding = ''utf-8''\<rparr>"

section \<open>Lemmas on the filter\<close>

lemma ratio_gt: "0 < n \<Longrightarrow> (real (k::nat) / real (n::nat) > 0.85) = (17 * n < 20 * k)"
proof -
  assume n: "0 < n"
  have "(17 * n < 20 * k) = (real (17 * n) < real (20 * k))"
    by (simp only: of_nat_less_iff)
  with n show ?thesis by (simp add: field_simps)
qed

text \<open>
  The distance that keeps the float comparison exact: on at most 4096 bytes a quotient
  is 17/20 or at least 1/81920 away from it, far more than a rounding error.
\<close>

lemma ratio_margin:
  assumes n: "0 < n" "n \<le> 4096" and ne: "20 * k \<noteq> 17 * n"
  shows "1 / 81920 \<le> \<bar>real (k::nat) / real (n::nat) - 17 / 20\<bar>"
proof -
  let ?d = "20 * int k - 17 * int n"
  from ne have "?d \<noteq> 0" by linarith
  then have "1 \<le> \<bar>?d\<bar>" by linarith
  then have one: "1 \<le> \<bar>real_of_int ?d\<bar>"
    by (metis of_int_abs of_int_1_le_iff)
  from n have eq: "real k / real n - 17 / 20 = real_of_int ?d / (20 * real n)"
    by (simp add: field_simps)
  from n have pos: "0 < 20 * real n" and le: "20 * real n \<le> 81920" by simp_all
  have "1 / 81920 \<le> 1 / (20 * real n)"
    using pos le by (simp add: frac_le)
  also have "\<dots> \<le> \<bar>real_of_int ?d\<bar> / (20 * real n)"
    using one pos by (simp add: divide_right_mono)
  also have "\<dots> = \<bar>real k / real n - 17 / 20\<bar>"
    using pos by (simp add: eq abs_divide del: of_int_diff of_int_mult)
  finally show ?thesis .
qed

lemma in_text_chars: "(c \<in> set text_chars) = spec_text_byte c"
proof -
  have "(c \<in> of_nat ` {32..<127::nat}) = (32 \<le> c \<and> c \<le> 126)"
  proof
    assume "c \<in> of_nat ` {32..<127::nat}"
    then obtain n :: nat where n: "c = of_nat n" "32 \<le> n" "n < 127" by auto
    then have "unat c = n" by (simp add: unat_of_nat)
    with n show "32 \<le> c \<and> c \<le> 126" by (simp add: word_le_nat_alt)
  next
    assume a: "32 \<le> c \<and> c \<le> 126"
    then have "32 \<le> unat c" "unat c < 127" by (simp_all add: word_le_nat_alt)
    moreover have "c = of_nat (unat c)" by simp
    ultimately show "c \<in> of_nat ` {32..<127::nat}" by (metis atLeastLessThan_iff imageI)
  qed
  then show ?thesis by (auto simp add: text_chars_def spec_text_byte_def simp del: upt_rec_numeral)
qed

lemma sum_of_bool_filter: "sum_list (map (\<lambda>c. of_bool (P c)) xs) = length (filter P xs)"
  by (induction xs) simp_all

lemma is_probably_text_spec:
  "is_probably_text fs p n = spec_probably_text (map_option (take n) (read_bytes fs p))"
  by (simp add: is_probably_text_def spec_probably_text_def Let_def in_text_chars
      sum_of_bool_filter split: option.splits)

lemma should_skip_file_checks:
  "should_skip_file fnmatch fs p a =
     (hidden_check a p \<or> size_check fs a p \<or> ext_check a p \<or> exclude_check fnmatch a p
      \<or> include_check fnmatch a p \<or> text_check fs p)"
  by (auto simp add: should_skip_file_def hidden_check_def size_check_def ext_check_def
      exclude_check_def include_check_def text_check_def Let_def split: option.splits)

lemma spec_first_match_None:
  "(spec_first_match fnmatch fs p a = None) = (\<forall>r. \<not> spec_triggers fnmatch fs p a r)"
proof -
  have "set spec_rule_order = UNIV"
  proof -
    have "r \<in> set spec_rule_order" for r
      by (cases r) (simp_all add: spec_rule_order_def)
    then show ?thesis by blast
  qed
  then show ?thesis
    by (simp add: spec_first_match_def find_None_iff)
qed

lemma skip_iff_rules:
  "should_skip_file fnmatch fs p a = (spec_first_match fnmatch fs p a \<noteq> None)"
proof -
  have "(\<exists>r. spec_triggers fnmatch fs p a r) =
        (spec_triggers fnmatch fs p a Hidden \<or> spec_triggers fnmatch fs p a Size
         \<or> spec_triggers fnmatch fs p a Extension \<or> spec_triggers fnmatch fs p a ExcludePattern
         \<or> spec_triggers fnmatch fs p a IncludePattern \<or> spec_triggers fnmatch fs p a BinarySniff)"
    (is "?l = ?r")
  proof
    assume ?l
    then obtain r where "spec_triggers fnmatch fs p a r" ..
    then show ?r by (cases r) simp_all
  next
    assume ?r then show ?l by blast
  qed
  then show ?thesis
    unfolding spec_first_match_None should_skip_file_checks
    by (auto simp add: hidden_check_def size_check_def ext_check_def
      exclude_check_def include_check_def text_check_def match_any_def is_probably_text_spec)
qed

section \<open>Lemmas on the traversal and the loop\<close>

lemma foldl_remove1_filter:
  "\<forall>x \<in> set pre. \<not> P x \<Longrightarrow>
   foldl (\<lambda>ds d. remove1 d ds) (pre @ xs) (filter P xs) = pre @ filter (\<lambda>x. \<not> P x) xs"
proof (induction xs arbitrary: pre)
  case Nil
  then show ?case by simp
next
  case (Cons x xs)
  show ?case
  proof (cases "P x")
    case True
    with Cons.prems have "x \<notin> set pre" by blast
    then have "remove1 x (pre @ x # xs) = pre @ xs"
      by (simp add: remove1_append)
    with True Cons.IH [OF Cons.prems] show ?thesis by simp
  next
    case False
    with Cons.prems have "\<forall>y \<in> set (pre @ [x]). \<not> P y" by simp
    from Cons.IH [OF this] False show ?thesis by simp
  qed
qed

lemma prune_dirnames_filter:
  "prune_dirnames dirnames =
     filter (\<lambda>d. \<not> (d \<in> DEFAULT_EXCLUDED_DIRS \<or> startswith d ''.'')) dirnames"
  using foldl_remove1_filter [of "[]" "\<lambda>d. d \<in> DEFAULT_EXCLUDED_DIRS \<or> startswith d ''.''" dirnames]
  by (simp add: prune_dirnames_def)

lemma os_walk_dirpath:
  "(dp, dn, fn) \<in> set (os_walk prune_dirnames follow topdir node) \<Longrightarrow>
   \<exists>rest. dp = topdir @ rest \<and>
     (\<forall>d \<in> set rest. d \<notin> DEFAULT_EXCLUDED_DIRS \<and> \<not> startswith d ''.'')"
proof (induction prune_dirnames follow topdir node arbitrary: dp dn fn rule: os_walk.induct)
  case (1 followlinks topdir)
  then show ?case by simp
next
  case (2 followlinks topdir l entries)
  let ?dirs = "map fst (filter (\<lambda>e. is_dir (snd e)) entries)"
  let ?sub = "\<lambda>d. case map_of entries d of
                      None \<Rightarrow> []
                    | Some node \<Rightarrow>
                        if followlinks \<or> \<not> is_link node
                        then os_walk prune_dirnames followlinks (join topdir d) node
                        else []"
  from "2.prems" have split: "dp = topdir \<or>
      (\<exists>d \<in> set (prune_dirnames ?dirs). (dp, dn, fn) \<in> set (?sub d))"
    by (auto simp add: Let_def)
  have "dp = topdir \<or>
      (\<exists>d node. d \<in> set (prune_dirnames ?dirs) \<and> map_of entries d = Some node \<and>
        (followlinks \<or> \<not> is_link node) \<and>
        (dp, dn, fn) \<in> set (os_walk prune_dirnames followlinks (join topdir d) node))"
  proof (cases "dp = topdir")
    case True
    then show ?thesis by simp
  next
    case False
    with split obtain d where d: "d \<in> set (prune_dirnames ?dirs)" "(dp, dn, fn) \<in> set (?sub d)"
      by blast
    from d(2) obtain node where node: "map_of entries d = Some node"
      by (cases "map_of entries d") simp_all
    with d(2) have "followlinks \<or> \<not> is_link node"
      by (simp split: if_splits)
    with d node show ?thesis by auto
  qed
  then consider
      (here) "dp = topdir"
    | (below) d node where "d \<in> set (prune_dirnames ?dirs)" "map_of entries d = Some node"
        "followlinks \<or> \<not> is_link node"
        "(dp, dn, fn) \<in> set (os_walk prune_dirnames followlinks (join topdir d) node)"
    by blast
  then show ?case
  proof cases
    case here
    then show ?thesis by simp
  next
    case below
    from "2.hyps" [OF refl refl below(1) below(2) below(3) below(4)]
    obtain rest where rest: "dp = join topdir d @ rest"
      "\<forall>d \<in> set rest. d \<notin> DEFAULT_EXCLUDED_DIRS \<and> \<not> startswith d ''.''"
      by blast
    from below(1) have "d \<notin> DEFAULT_EXCLUDED_DIRS \<and> \<not> startswith d ''.''"
      by (simp add: prune_dirnames_filter)
    with rest have "dp = topdir @ (d # rest) \<and>
      (\<forall>d \<in> set (d # rest). d \<notin> DEFAULT_EXCLUDED_DIRS \<and> \<not> startswith d ''.'')"
      by (simp add: join_def)
    then show ?thesis by blast
  qed
qed

lemma walk_files_below:
  assumes "p \<in> set (walk_files fs rootdir follow)"
  shows "\<exists>rest fname. p = rootdir @ rest @ [fname] \<and>
     (\<forall>d \<in> set rest. d \<notin> DEFAULT_EXCLUDED_DIRS \<and> \<not> startswith d ''.'')"
proof -
  from assms obtain node dp dn fn fname where
    "(dp, dn, fn) \<in> set (os_walk prune_dirnames follow rootdir node)" and p: "p = join dp fname"
    by (auto simp add: walk_files_def split: option.splits)
  from os_walk_dirpath [OF this(1)] p show ?thesis
    by (auto simp add: join_def)
qed

lemma emit_loop_blocks:
  "emit_loop fnmatch fs a rootdir ps (out, n) =
     (out @ concat (map (\<lambda>p. spec_block (header_of a rootdir p) (the (read_text fs (encoding a) p)))
                        (emitted fnmatch fs a ps)),
      n + length (emitted fnmatch fs a ps))"
proof (induction ps arbitrary: out n)
  case Nil
  then show ?case by (simp add: emitted_def)
next
  case (Cons p ps)
  then show ?case
    by (simp add: emitted_def spec_block_def header_of_def Let_def split: option.splits)
qed

section \<open>Lemmas on the program\<close>



lemma main_success:
  "isdir fs (abspath fs (folder a)) \<Longrightarrow> can_write fs (output a) \<Longrightarrow>
   main fnmatch fs store a =
     \<lparr>ending = Exited 0,
      stdout = check_mark @ '' Listo. Archivos incluidos: ''
                 @ str_nat (length (emitted fnmatch fs a
                      (walk_files fs (abspath fs (folder a)) (follow_symlinks a))))
                 @ [newline] @ arrow @ '' '' @ output a @ [newline],
      stderr = [],
      files = store(output a \<mapsto>
                concat (map (\<lambda>p. spec_block (header_of a (abspath fs (folder a)) p)
                                  (the (read_text fs (encoding a) p)))
                            (emitted fnmatch fs a
                               (walk_files fs (abspath fs (folder a)) (follow_symlinks a)))))\<rparr>"
  by (simp add: main_def Let_def emit_loop_blocks)

lemma emit_loop_accept:
  "\<not> should_skip_file fnmatch fs p a \<Longrightarrow> read_text fs (encoding a) p = Some content \<Longrightarrow>
   emit_loop fnmatch fs a rootdir (p # ps) (out, n) =
     emit_loop fnmatch fs a rootdir ps (out @ spec_block (header_of a rootdir p) content, Suc n)"
  by (simp add: spec_block_def header_of_def Let_def)

section \<open>The filter\<close>

text \<open>
  Claim C1. For every candidate path and configuration, the decision of
  \<open>should_skip_file\<close> is that of the six rules applied in the fixed order hidden name,
  size, default extension, exclude patterns, include patterns, binary sniff, where the
  first rule that triggers wins: the file is skipped exactly when the chain finds a
  rule that triggers, and it is accepted exactly when none of the six triggers. The
  rules are those of the specification's wording, with its own heuristic for the sniff.
\<close>

theorem skip_decision_rule_order:
  "should_skip_file fnmatch fs p a = (spec_first_match fnmatch fs p a \<noteq> None) \<and>
   (\<not> should_skip_file fnmatch fs p a) =
     list_all (\<lambda>r. \<not> spec_triggers fnmatch fs p a r) spec_rule_order"
proof -
  have "list_all (\<lambda>r. \<not> spec_triggers fnmatch fs p a r) spec_rule_order =
        (spec_first_match fnmatch fs p a = None)"
    by (auto simp add: spec_first_match_def find_None_iff list_all_iff)
  then show ?thesis by (simp add: skip_iff_rules)
qed

text \<open>
  On the sample folder \<open>a.py\<close> triggers no rule and is accepted; for \<open>b.png\<close> both the
  extension rule and the sniff trigger, and the chain reports the earlier one.
\<close>

theorem skip_decision_rule_order_witness:
  "\<not> should_skip_file simple_fnmatch demo_fs [''w'', ''proj'', ''a.py''] demo_args \<and>
   spec_first_match simple_fnmatch demo_fs [''w'', ''proj'', ''a.py''] demo_args = None \<and>
   should_skip_file simple_fnmatch demo_fs [''w'', ''proj'', ''b.png''] demo_args \<and>
   spec_first_match simple_fnmatch demo_fs [''w'', ''proj'', ''b.png''] demo_args = Some Extension \<and>
   spec_triggers simple_fnmatch demo_fs [''w'', ''proj'', ''b.png''] demo_args BinarySniff"
proof -
  have a: "spec_first_match simple_fnmatch demo_fs [''w'', ''proj'', ''a.py''] demo_args = None"
    by code_simp
  have b: "spec_first_match simple_fnmatch demo_fs [''w'', ''proj'', ''b.png''] demo_args
             = Some Extension"
    by code_simp
  have c: "spec_triggers simple_fnmatch demo_fs [''w'', ''proj'', ''b.png''] demo_args BinarySniff"
    by code_simp
  show ?thesis
    using a b c
      skip_decision_rule_order [of simple_fnmatch demo_fs "[''w'', ''proj'', ''a.py'']" demo_args]
      skip_decision_rule_order [of simple_fnmatch demo_fs "[''w'', ''proj'', ''b.png'']" demo_args]
    by simp
qed

text \<open>
  Claim C6. On a sample of up to 4096 bytes from the start of the file, the heuristic
  answers: binary when the sample cannot be read, binary when it holds a null byte, text
  when it is empty, and otherwise text exactly when the fraction of its bytes that are
  printable ASCII (32 to 126) or newline, carriage return, tab, form feed or backspace
  is strictly greater than 0.85.
\<close>

theorem probably_text_heuristic:
  "is_probably_text fs p 4096 = spec_probably_text (map_option (take 4096) (read_bytes fs p))"
  by (rule is_probably_text_spec)

text \<open>The text file, the image (it holds null bytes) and a file that cannot be opened.\<close>

theorem probably_text_heuristic_witness:
  "is_probably_text demo_fs [''w'', ''proj'', ''a.py''] 4096 \<and>
   \<not> is_probably_text demo_fs [''w'', ''proj'', ''b.png''] 4096 \<and>
   \<not> is_probably_text demo_fs [''w'', ''proj'', ''missing''] 4096"
proof -
  have a: "spec_probably_text (map_option (take 4096) (read_bytes demo_fs [''w'', ''proj'', ''a.py'']))"
    by code_simp
  have b: "\<not> spec_probably_text (map_option (take 4096) (read_bytes demo_fs [''w'', ''proj'', ''b.png'']))"
    by code_simp
  have c: "\<not> spec_probably_text (map_option (take 4096) (read_bytes demo_fs [''w'', ''proj'', ''missing'']))"
    by code_simp
  show ?thesis
    using a b c
      probably_text_heuristic [of demo_fs "[''w'', ''proj'', ''a.py'']"]
      probably_text_heuristic [of demo_fs "[''w'', ''proj'', ''b.png'']"]
      probably_text_heuristic [of demo_fs "[''w'', ''proj'', ''missing'']"]
    by simp
qed

text \<open>
  Claim C4. When at least one include pattern is supplied, the default extension rule
  never triggers, the decision is that of the other checks alone, and a file whose
  base name matches no include pattern is skipped: only matching files can be accepted.
\<close>

theorem include_bypasses_extensions:
  "include a \<noteq> [] \<Longrightarrow>
     \<not> ext_check a p \<and>
     should_skip_file fnmatch fs p a =
       (hidden_check a p \<or> size_check fs a p \<or> exclude_check fnmatch a p
        \<or> \<not> match_any fnmatch (include a) (basename p) \<or> text_check fs p) \<and>
     (\<not> match_any fnmatch (include a) (basename p) \<longrightarrow> should_skip_file fnmatch fs p a)"
  by (auto simp add: should_skip_file_checks ext_check_def include_check_def)

text \<open>
  With \<^verbatim>\<open>--include '*.obj'\<close> the mesh, which the default extensions exclude, is
  accepted, and the plain text file \<open>m.txt\<close>, accepted by default, is skipped.
\<close>

theorem include_bypasses_extensions_witness:
  "include (demo_args\<lparr>include := [''*.obj'']\<rparr>) \<noteq> [] \<and>
   should_skip_file simple_fnmatch demo_fs [''w'', ''proj'', ''sub'', ''mesh.obj''] demo_args \<and>
   \<not> should_skip_file simple_fnmatch demo_fs [''w'', ''proj'', ''sub'', ''mesh.obj'']
       (demo_args\<lparr>include := [''*.obj'']\<rparr>) \<and>
   \<not> should_skip_file simple_fnmatch demo_fs [''w'', ''proj'', ''sub'', ''m.txt''] demo_args \<and>
   should_skip_file simple_fnmatch demo_fs [''w'', ''proj'', ''sub'', ''m.txt'']
       (demo_args\<lparr>include := [''*.obj'']\<rparr>)"
proof -
  let ?a = "demo_args\<lparr>include := [''*.obj'']\<rparr>"
  let ?mesh = "[''w'', ''proj'', ''sub'', ''mesh.obj'']"
  let ?m = "[''w'', ''proj'', ''sub'', ''m.txt'']"
  have h: "include ?a \<noteq> []" by simp
  have mesh: "\<not> hidden_check ?a ?mesh" "\<not> size_check demo_fs ?a ?mesh"
    "\<not> exclude_check simple_fnmatch ?a ?mesh"
    "match_any simple_fnmatch (include ?a) (basename ?mesh)" "\<not> text_check demo_fs ?mesh"
    by code_simp+
  have m: "\<not> match_any simple_fnmatch (include ?a) (basename ?m)"
    by code_simp
  have d1: "should_skip_file simple_fnmatch demo_fs ?mesh demo_args"
    by code_simp
  have d2: "\<not> should_skip_file simple_fnmatch demo_fs ?m demo_args"
    by code_simp
  show ?thesis
    using h mesh m d1 d2
      include_bypasses_extensions [OF h, of ?mesh simple_fnmatch demo_fs]
      include_bypasses_extensions [OF h, of ?m simple_fnmatch demo_fs]
    by simp
qed

text \<open>
  Claim C5. The size rule triggers exactly when the size cannot be determined or the
  reported size is strictly greater than \<open>max_bytes\<close>; when it triggers the file is
  skipped, and when it does not the decision is that of the other checks. So a file
  of exactly \<open>max_bytes\<close> bytes passes the size check, and one of \<open>max_bytes + 1\<close> bytes
  is skipped.
\<close>

theorem size_rule_boundary:
  "size_check fs a p =
     (getsize fs p = None \<or> (\<exists>sz. getsize fs p = Some sz \<and> max_bytes a < int sz)) \<and>
   (size_check fs a p \<longrightarrow> should_skip_file fnmatch fs p a) \<and>
   (\<not> size_check fs a p \<longrightarrow>
      should_skip_file fnmatch fs p a =
        (hidden_check a p \<or> ext_check a p \<or> exclude_check fnmatch a p
         \<or> include_check fnmatch a p \<or> text_check fs p)) \<and>
   (getsize fs p = Some sz \<and> int sz = max_bytes a \<longrightarrow> \<not> size_check fs a p) \<and>
   (getsize fs p = Some sz \<and> int sz = max_bytes a + 1 \<longrightarrow> should_skip_file fnmatch fs p a)"
  by (auto simp add: should_skip_file_checks size_check_def split: option.splits)

text \<open>The file of 6 bytes under a limit of 6 bytes and under a limit of 5.\<close>

theorem size_rule_boundary_witness:
  "getsize demo_fs [''w'', ''proj'', ''a.py''] = Some 6 \<and>
   \<not> should_skip_file simple_fnmatch demo_fs [''w'', ''proj'', ''a.py''] (demo_args\<lparr>max_bytes := 6\<rparr>) \<and>
   should_skip_file simple_fnmatch demo_fs [''w'', ''proj'', ''a.py''] (demo_args\<lparr>max_bytes := 5\<rparr>)"
proof -
  let ?p = "[''w'', ''proj'', ''a.py'']"
  have g: "getsize demo_fs ?p = Some 6" by code_simp
  have o: "\<not> hidden_check (demo_args\<lparr>max_bytes := 6\<rparr>) ?p"
    "\<not> ext_check (demo_args\<lparr>max_bytes := 6\<rparr>) ?p"
    "\<not> exclude_check simple_fnmatch (demo_args\<lparr>max_bytes := 6\<rparr>) ?p"
    "\<not> include_check simple_fnmatch (demo_args\<lparr>max_bytes := 6\<rparr>) ?p"
    "\<not> text_check demo_fs ?p"
    by code_simp+
  show ?thesis
    using g o
      size_rule_boundary [of demo_fs "demo_args\<lparr>max_bytes := 6\<rparr>" ?p simple_fnmatch 6]
      size_rule_boundary [of demo_fs "demo_args\<lparr>max_bytes := 5\<rparr>" ?p simple_fnmatch 6]
    by simp
qed

text \<open>
  Claim C10. Include patterns do not bypass the binary sniff: a file whose base name
  matches an include pattern is still skipped when the heuristic classifies it as
  binary.
\<close>

theorem include_keeps_binary_sniff:
  "include a \<noteq> [] \<Longrightarrow> match_any fnmatch (include a) (basename p) \<Longrightarrow>
   \<not> is_probably_text fs p 4096 \<Longrightarrow> should_skip_file fnmatch fs p a"
  by (simp add: should_skip_file_checks text_check_def)

text \<open>\<^verbatim>\<open>--include '*.png'\<close> does not bring the image into the output.\<close>

theorem include_keeps_binary_sniff_witness:
  "include (demo_args\<lparr>include := [''*.png'']\<rparr>) \<noteq> [] \<and>
   match_any simple_fnmatch (include (demo_args\<lparr>include := [''*.png'']\<rparr>))
     (basename [''w'', ''proj'', ''b.png'']) \<and>
   \<not> is_probably_text demo_fs [''w'', ''proj'', ''b.png''] 4096 \<and>
   should_skip_file simple_fnmatch demo_fs [''w'', ''proj'', ''b.png'']
     (demo_args\<lparr>include := [''*.png'']\<rparr>)"
proof -
  let ?a = "demo_args\<lparr>include := [''*.png'']\<rparr>"
  let ?p = "[''w'', ''proj'', ''b.png'']"
  have h1: "include ?a \<noteq> []" by simp
  have h2: "match_any simple_fnmatch (include ?a) (basename ?p)" by code_simp
  have h3: "\<not> is_probably_text demo_fs ?p 4096" by code_simp
  show ?thesis
    using h1 h2 h3 include_keeps_binary_sniff [OF h1 h2 h3] by simp
qed

section \<open>Traversal, emission and the run\<close>

text \<open>
  Claim C2. For every accepted file, the loop appends to the output exactly the header,
  a colon, a newline, the decoded content as read, one newline more if and only if the
  content does not end with one, and the newline of the separator. The output file of
  a run is the sequence of these blocks for the emitted files, in the order of the
  traversal. So the content stands unchanged between the header line and the
  separator, followed by at most one added newline.
\<close>

theorem block_format:
  "(\<not> should_skip_file fnmatch fs p a \<and> read_text fs (encoding a) p = Some content \<longrightarrow>
      emit_loop fnmatch fs a rootdir (p # ps) (out, n) =
        emit_loop fnmatch fs a rootdir ps
          (out @ header_of a rootdir p @ '':'' @ [newline] @ content
             @ (if endswith content [newline] then [] else [newline]) @ [newline],
           Suc n)) \<and>
   (isdir fs (abspath fs (folder a)) \<and> can_write fs (output a) \<longrightarrow>
      files (main fnmatch fs store a) (output a) =
        Some (concat (map (\<lambda>p. spec_block (header_of a (abspath fs (folder a)) p)
                                  (the (read_text fs (encoding a) p)))
                          (emitted fnmatch fs a
                             (walk_files fs (abspath fs (folder a)) (follow_symlinks a)))))) \<and>
   (\<exists>t. spec_block header content = (header @ '':'' @ [newline]) @ content @ t @ [newline] \<and>
        (t = [] \<or> t = [newline]) \<and> (t = []) = endswith content [newline])"
proof -
  have "\<exists>t. spec_block header content = (header @ '':'' @ [newline]) @ content @ t @ [newline] \<and>
        (t = [] \<or> t = [newline]) \<and> (t = []) = endswith content [newline]"
    by (rule exI [of _ "if endswith content [newline] then [] else [newline]"])
       (simp add: spec_block_def)
  then show ?thesis
    using emit_loop_accept [of fnmatch fs p a content rootdir ps out n]
    by (simp add: main_success spec_block_def)
qed

text \<open>The block of \<open>m.txt\<close>, whose content has no final newline, and the whole output.\<close>

theorem block_format_witness:
  "\<not> should_skip_file simple_fnmatch demo_fs [''w'', ''proj'', ''sub'', ''m.txt''] demo_args \<and>
   read_text demo_fs (encoding demo_args) [''w'', ''proj'', ''sub'', ''m.txt''] = Some ''ok'' \<and>
   emit_loop simple_fnmatch demo_fs demo_args [''w'', ''proj'']
       [[''w'', ''proj'', ''sub'', ''m.txt'']] (''A'', 1) =
     (''A'' @ ''m.txt:'' @ [newline] @ ''ok'' @ [newline] @ [newline], 2) \<and>
   isdir demo_fs (abspath demo_fs (folder demo_args)) \<and>
   can_write demo_fs (output demo_args) \<and>
   files (main simple_fnmatch demo_fs Map.empty demo_args) (output demo_args) =
     Some (''a.py:'' @ [newline] @ ''x = 1'' @ [newline] @ [newline]
           @ ''m.txt:'' @ [newline] @ ''ok'' @ [newline] @ [newline])"
proof -
  let ?m = "[''w'', ''proj'', ''sub'', ''m.txt'']"
  have s: "\<not> should_skip_file simple_fnmatch demo_fs ?m demo_args" by code_simp
  have r: "read_text demo_fs (encoding demo_args) ?m = Some ''ok''" by code_simp
  have h: "header_of demo_args [''w'', ''proj''] ?m = ''m.txt''" by code_simp
  have n: "\<not> endswith ''ok'' [newline]" by code_simp
  have d: "isdir demo_fs (abspath demo_fs (folder demo_args))" by code_simp
  have w: "can_write demo_fs (output demo_args)" by code_simp
  have e: "concat (map (\<lambda>p. spec_block (header_of demo_args (abspath demo_fs (folder demo_args)) p)
                                  (the (read_text demo_fs (encoding demo_args) p)))
                          (emitted simple_fnmatch demo_fs demo_args
                             (walk_files demo_fs (abspath demo_fs (folder demo_args))
                                (follow_symlinks demo_args)))) =
           ''a.py:'' @ [newline] @ ''x = 1'' @ [newline] @ [newline]
           @ ''m.txt:'' @ [newline] @ ''ok'' @ [newline] @ [newline]"
    by code_simp
  show ?thesis
    using s r h n d w e
      block_format [of simple_fnmatch demo_fs ?m demo_args "''ok''" "[''w'', ''proj'']" "[]"
        "''A''" 1 Map.empty "[]"]
    by simp
qed

text \<open>
  Claim C3, amended. For every directory below the root whose name is in the default
  excluded set or starts with a dot, the traversal does not descend into it: every
  path that \<open>walk_files\<close> yields, and so every path that gets a block in the output, is
  the root followed by directory names that are neither excluded nor hidden and by the
  file name. The names of the root itself and of the directories above it are not
  checked.
\<close>

theorem pruned_below_root:
  "p \<in> set (walk_files fs rootdir follow) \<or>
   p \<in> set (emitted fnmatch fs a (walk_files fs rootdir follow)) \<Longrightarrow>
   \<exists>rest fname. p = rootdir @ rest @ [fname] \<and>
     (\<forall>d \<in> set rest. d \<notin> DEFAULT_EXCLUDED_DIRS \<and> \<not> startswith d ''.'')"
proof -
  assume "p \<in> set (walk_files fs rootdir follow) \<or>
   p \<in> set (emitted fnmatch fs a (walk_files fs rootdir follow))"
  then have "p \<in> set (walk_files fs rootdir follow)"
    by (auto simp add: emitted_def)
  then show ?thesis by (rule walk_files_below)
qed

text \<open>
  Claim C3 as stated, for every directory with such a name, fails when the folder given
  to the program is itself named \<open>build\<close>: the file beneath it is yielded and written.
\<close>

theorem pruned_below_root_counterexample:
  "[''w'', ''build'', ''a.py''] \<in> set (walk_files build_fs (abspath build_fs ''build'') False) \<and>
   ''build'' \<in> set (butlast [''w'', ''build'', ''a.py'']) \<and>
   ''build'' \<in> DEFAULT_EXCLUDED_DIRS \<and>
   files (main simple_fnmatch build_fs Map.empty (demo_args\<lparr>folder := ''build''\<rparr>))
       ''contenido_carpeta.txt'' =
     Some (''a.py:'' @ [newline] @ ''x = 1'' @ [newline] @ [newline])"
  by code_simp

text \<open>
  In the sample folder the file in \<open>sub\<close> is yielded, the files beneath \<open>node_modules\<close>
  and beneath the hidden directory two levels down are not.
\<close>

theorem pruned_below_root_witness:
  "[''w'', ''proj'', ''sub'', ''m.txt''] \<in> set (walk_files demo_fs [''w'', ''proj''] False) \<and>
   (\<exists>rest fname. [''w'', ''proj'', ''sub'', ''m.txt''] = [''w'', ''proj''] @ rest @ [fname] \<and>
      (\<forall>d \<in> set rest. d \<notin> DEFAULT_EXCLUDED_DIRS \<and> \<not> startswith d ''.'')) \<and>
   [''w'', ''proj'', ''node_modules'', ''lib.js''] \<notin> set (walk_files demo_fs [''w'', ''proj''] False) \<and>
   [''w'', ''proj'', ''sub'', ''.hid'', ''t.txt''] \<notin> set (walk_files demo_fs [''w'', ''proj''] False)"
proof -
  have m: "[''w'', ''proj'', ''sub'', ''m.txt''] \<in> set (walk_files demo_fs [''w'', ''proj''] False)"
    by code_simp
  have n: "[''w'', ''proj'', ''node_modules'', ''lib.js''] \<notin> set (walk_files demo_fs [''w'', ''proj''] False)"
    "[''w'', ''proj'', ''sub'', ''.hid'', ''t.txt''] \<notin> set (walk_files demo_fs [''w'', ''proj''] False)"
    by code_simp+
  show ?thesis
    using m n pruned_below_root [of "[''w'', ''proj'', ''sub'', ''m.txt'']" demo_fs "[''w'', ''proj'']" False
        simple_fnmatch demo_args]
    by simp
qed








end
